theory Spec2Isabelle
  imports Complex_Main
begin

chapter \<open>The aggregation engine of the cognitive-health dashboard\<close>

text \<open>
  The route handlers of the application turn stored observations into derived metrics:
  a composite cognitive score, a trend with its risk-indicator ranking, a wellness plan
  and daily health metrics. Each handler is embedded here as a HOL function of what it
  reads (the responses of the database client, the clock) and, where a handler writes,
  of the table it writes to.
\<close>

section \<open>JavaScript values\<close>

subsection \<open>Numbers\<close>

text \<open>
  A JavaScript number is a finite value, an infinity or \<open>NaN\<close>. Finite values are
  modelled as exact reals: the rounding error of IEEE doubles and the sign of zero are
  not modelled. The special values are, since the handlers divide by the length of a
  possibly empty array.
\<close>

datatype number = Num real | PosInf | NegInf | NaN

fun js_add :: "number \<Rightarrow> number \<Rightarrow> number" where
  "js_add (Num x) (Num y) = Num (x + y)"
| "js_add NaN b = NaN"
| "js_add a NaN = NaN"
| "js_add PosInf NegInf = NaN"
| "js_add NegInf PosInf = NaN"
| "js_add PosInf b = PosInf"
| "js_add a PosInf = PosInf"
| "js_add NegInf b = NegInf"
| "js_add a NegInf = NegInf"

fun js_neg :: "number \<Rightarrow> number" where
  "js_neg (Num x) = Num (- x)"
| "js_neg PosInf = NegInf"
| "js_neg NegInf = PosInf"
| "js_neg NaN = NaN"

definition js_sub :: "number \<Rightarrow> number \<Rightarrow> number" where
  "js_sub a b = js_add a (js_neg b)"

text \<open>The sign of a non-zero, non-NaN number: \<open>True\<close> for positive.\<close>

fun js_positive :: "number \<Rightarrow> bool" where
  "js_positive (Num x) = (0 < x)"
| "js_positive PosInf = True"
| "js_positive NegInf = False"
| "js_positive NaN = False"

definition signed_inf :: "bool \<Rightarrow> number" where
  "signed_inf positive = (if positive then PosInf else NegInf)"

fun js_mul :: "number \<Rightarrow> number \<Rightarrow> number" where
  "js_mul (Num x) (Num y) = Num (x * y)"
| "js_mul NaN b = NaN"
| "js_mul a NaN = NaN"
| "js_mul a b =
     (if a = Num 0 \<or> b = Num 0 then NaN
      else signed_inf (js_positive a = js_positive b))"

text \<open>
  Division: \<open>0 / 0\<close> is \<open>NaN\<close>, a non-zero value over zero is an infinity (of the
  dividend's sign, the divisor being \<open>+0\<close>), a finite value over an infinity is zero.
\<close>

fun js_div :: "number \<Rightarrow> number \<Rightarrow> number" where
  "js_div (Num x) (Num y) =
     (if y \<noteq> 0 then Num (x / y)
      else if x = 0 then NaN
      else signed_inf (0 < x))"
| "js_div NaN b = NaN"
| "js_div a NaN = NaN"
| "js_div (Num x) b = Num 0"
| "js_div a (Num y) = signed_inf (js_positive a = (0 \<le> y))"
| "js_div a b = NaN"

fun Math_abs :: "number \<Rightarrow> number" where
  "Math_abs (Num x) = Num \<bar>x\<bar>"
| "Math_abs PosInf = PosInf"
| "Math_abs NegInf = PosInf"
| "Math_abs NaN = NaN"

text \<open>\<open>Math.round\<close> rounds to the nearest integer, a half towards \<open>+\<infinity>\<close>.\<close>

fun Math_round :: "number \<Rightarrow> number" where
  "Math_round (Num x) = Num (of_int \<lfloor>x + 1 / 2\<rfloor>)"
| "Math_round a = a"

text \<open>The comparisons \<open><\<close> and \<open>>\<close>: every comparison with \<open>NaN\<close> is false.\<close>

fun js_lt :: "number \<Rightarrow> number \<Rightarrow> bool" where
  "js_lt (Num x) (Num y) = (x < y)"
| "js_lt NaN b = False"
| "js_lt a NaN = False"
| "js_lt a NegInf = False"
| "js_lt PosInf b = False"
| "js_lt a b = True"

definition js_gt :: "number \<Rightarrow> number \<Rightarrow> bool" where
  "js_gt a b = js_lt b a"

text \<open>Strict inequality \<open>!==\<close>: \<open>NaN\<close> differs from everything, itself included.\<close>

definition js_strict_neq :: "number \<Rightarrow> number \<Rightarrow> bool" where
  "js_strict_neq a b = (a = NaN \<or> b = NaN \<or> a \<noteq> b)"

subsection \<open>JSON values and truthiness\<close>

datatype json =
    JNull
  | JBool bool
  | JNumber real
  | JString string
  | JArray "json list"
  | JObject "(string \<times> json) list"

fun truthy :: "json \<Rightarrow> bool" where
  "truthy JNull = False"
| "truthy (JBool b) = b"
| "truthy (JNumber x) = (x \<noteq> 0)"
| "truthy (JString s) = (s \<noteq> [])"
| "truthy (JArray xs) = True"
| "truthy (JObject kvs) = True"

section \<open>The database client\<close>

text \<open>
  Every query of the client resolves to an object with a \<open>data\<close> and an \<open>error\<close>
  field (\<open>resp_data\<close> and \<open>resp_error\<close> here); a failed query is reported in
  \<open>error\<close>, it does not throw. Timestamps are
  milliseconds since the epoch.
\<close>

record 'a response =
  resp_data :: "'a option"
  resp_error :: "string option"

type_synonym timestamp = int

text \<open>A row of \<open>detection_results\<close>. The \<open>confidence_score\<close> column is
  \<open>NUMERIC NOT NULL\<close>: a finite number. \<open>risk_indicators\<close> is \<open>null\<close> or an object,
  its entries in the order \<open>Object.entries\<close> reads them.\<close>

record detection_result =
  dr_id :: string
  dr_user_id :: string
  detection_type :: string
  confidence_score :: real
  risk_indicators :: "(string \<times> json) list option"
  raw_data :: "(string \<times> json) list option"
  dr_created_at :: timestamp

section \<open>The composite cognitive score\<close>

text \<open>
  \<open>calculateCognitiveScore\<close> of the detection-results route. Its three queries (the
  five most recent facial, speech and behavioural results of the user) are inputs here.
\<close>

record component_scores =
  facial :: number
  speech :: number
  behavioral :: number

record cognitive_health =
  cognitive_score :: number
  status :: string
  areas_of_concern :: "string list"
  component_scores :: component_scores
  last_updated :: timestamp

text \<open>\<open>results.reduce((sum, item) => sum + item.confidence_score, 0)\<close>\<close>

definition sum_confidence :: "detection_result list \<Rightarrow> number" where
  "sum_confidence results =
     foldl (\<lambda>sum item. js_add sum (Num (confidence_score item))) (Num 0) results"

definition calculateCognitiveScore ::
  "detection_result list response \<Rightarrow> detection_result list response \<Rightarrow>
   detection_result list response \<Rightarrow> timestamp \<Rightarrow> string + cognitive_health" where
  "calculateCognitiveScore facialQuery speechQuery behavioralQuery now =
     (if resp_error facialQuery \<noteq> None \<or> resp_error speechQuery \<noteq> None \<or> resp_error behavioralQuery \<noteq> None
      then Inl ''Failed to calculate cognitive score''
      else
        let facialWeight = Num 0.35;
            speechWeight = Num 0.4;
            behavioralWeight = Num 0.25;
            facialAvg =
              (case resp_data facialQuery of
                 Some facialResults \<Rightarrow>
                   if length facialResults > 0
                   then js_div (sum_confidence facialResults) (Num (real (length facialResults)))
                   else Num 0
               | None \<Rightarrow> Num 0);
            speechAvg =
              (case resp_data speechQuery of
                 Some speechResults \<Rightarrow>
                   if length speechResults > 0
                   then js_div (sum_confidence speechResults) (Num (real (length speechResults)))
                   else Num 0
               | None \<Rightarrow> Num 0);
            behavioralAvg =
              (case resp_data behavioralQuery of
                 Some behavioralResults \<Rightarrow>
                   if length behavioralResults > 0
                   then js_div (sum_confidence behavioralResults)
                          (Num (real (length behavioralResults)))
                   else Num 0
               | None \<Rightarrow> Num 0);
            cognitiveScore =
              Math_round
                (js_mul
                   (js_add
                      (js_add (js_mul facialAvg facialWeight) (js_mul speechAvg speechWeight))
                      (js_mul behavioralAvg behavioralWeight))
                   (Num 100));
            status =
              (if js_lt cognitiveScore (Num 50) then ''concerning''
               else if js_lt cognitiveScore (Num 70) then ''moderate''
               else ''healthy'');
            areasOfConcern =
              (if js_lt facialAvg (Num 0.6) then [''facial expressions''] else []) @
              (if js_lt speechAvg (Num 0.6) then [''speech patterns''] else []) @
              (if js_lt behavioralAvg (Num 0.6) then [''behavioral responses''] else [])
        in Inr \<lparr>cognitive_score = cognitiveScore,
                 status = status,
                 areas_of_concern = areasOfConcern,
                 component_scores =
                   \<lparr>facial = Math_round (js_mul facialAvg (Num 100)),
                    speech = Math_round (js_mul speechAvg (Num 100)),
                    behavioral = Math_round (js_mul behavioralAvg (Num 100))\<rparr>,
                 last_updated = now\<rparr>)"

text \<open>
  The channel average in the words of the specification: the arithmetic mean of the
  confidence scores, an empty channel contributing 0.
\<close>

definition channel_mean :: "detection_result list \<Rightarrow> real" where
  "channel_mean results =
     (if results = [] then 0
      else sum_list (map confidence_score results) / real (length results))"


text \<open>The rows a successful query delivered: none when its \<open>data\<close> is \<open>null\<close>.\<close>

definition rows :: "'a list option \<Rightarrow> 'a list" where
  "rows d = (case d of None \<Rightarrow> [] | Some rs \<Rightarrow> rs)"

definition found :: "'a \<Rightarrow> 'a response" where
  "found d = \<lparr>resp_data = Some d, resp_error = None\<rparr>"

section \<open>Trend analysis\<close>

subsection \<open>Objects as counters\<close>

text \<open>
  \<open>analyzeTrends\<close> counts risk indicators in a plain object \<open>riskIndicators = {}\<close>.
  An object is modelled by its own properties in the order of their creation.
  \<open>Object.entries\<close> reads them as the language prescribes: the keys that are array
  indices first, in ascending numeric order, then the other keys in creation order.
\<close>

type_synonym 'v object = "(string \<times> 'v) list"

definition is_digit :: "char \<Rightarrow> bool" where
  "is_digit c = (c \<in> set ''0123456789'')"

definition digit_value :: "char \<Rightarrow> nat" where
  "digit_value c = of_char c - 48"

definition decimal_value :: "string \<Rightarrow> nat" where
  "decimal_value k = foldl (\<lambda>n c. 10 * n + digit_value c) 0 k"

text \<open>An array index is the canonical decimal form of an integer below \<open>2^32 - 1\<close>.\<close>

definition array_index :: "string \<Rightarrow> nat option" where
  "array_index k =
     (if k \<noteq> [] \<and> list_all is_digit k \<and> (k = ''0'' \<or> hd k \<noteq> CHR ''0'')
         \<and> decimal_value k \<le> 4294967294
      then Some (decimal_value k) else None)"

definition is_array_index :: "string \<Rightarrow> bool" where
  "is_array_index k = (array_index k \<noteq> None)"

definition Object_entries :: "'v object \<Rightarrow> (string \<times> 'v) list" where
  "Object_entries obj =
     sort_key (\<lambda>(k, v). the (array_index k)) (filter (\<lambda>(k, v). is_array_index k) obj) @
     filter (\<lambda>(k, v). \<not> is_array_index k) obj"

text \<open>
  A plain object inherits the members of \<open>Object.prototype\<close>. Reading
  \<open>riskIndicators[key]\<close> for one of these names, before the object has a property of
  its own under it, yields the inherited member and not \<open>undefined\<close>.
\<close>

definition objectPrototypeKeys :: "string list" where
  "objectPrototypeKeys =
     [''constructor'', ''__defineGetter__'', ''__defineSetter__'', ''hasOwnProperty'',
      ''__lookupGetter__'', ''__lookupSetter__'', ''isPrototypeOf'',
      ''propertyIsEnumerable'', ''toString'', ''valueOf'', ''__proto__'',
      ''toLocaleString'']"

fun update_property :: "string \<Rightarrow> 'v \<Rightarrow> 'v object \<Rightarrow> 'v object" where
  "update_property key v [] = [(key, v)]"
| "update_property key v ((k, w) # obj) =
     (if k = key then (k, v) # obj else (k, w) # update_property key v obj)"

text \<open>
  \<open>riskIndicators[key] = (riskIndicators[key] || 0) + 1\<close>. With an inherited member
  on the right the sum is a string, the comparator of the later sort is no longer a
  consistent ordering and the language leaves the sorted order open (for \<open>__proto__\<close>
  the assignment is ignored instead): the result \<open>None\<close> stands for these cases,
  which the model does not describe further.
\<close>

definition count_indicator :: "nat object option \<Rightarrow> string \<Rightarrow> nat object option" where
  "count_indicator riskIndicators key =
     (case riskIndicators of
        None \<Rightarrow> None
      | Some obj \<Rightarrow>
          (case map_of obj key of
             Some n \<Rightarrow> Some (update_property key (n + 1) obj)
           | None \<Rightarrow>
               if key \<in> set objectPrototypeKeys then None
               else Some (update_property key (0 + 1) obj)))"

definition count_item :: "nat object option \<Rightarrow> detection_result \<Rightarrow> nat object option" where
  "count_item riskIndicators item =
     (case risk_indicators item of
        None \<Rightarrow> riskIndicators
      | Some entries \<Rightarrow>
          foldl (\<lambda>acc (key, v). if truthy v then count_indicator acc key else acc)
            riskIndicators entries)"

definition countRiskIndicators :: "detection_result list \<Rightarrow> nat object option" where
  "countRiskIndicators data = foldl count_item (Some []) data"

subsection \<open>Sorting with a comparator\<close>

text \<open>
  \<open>Array.prototype.sort\<close> is stable. For a comparator that is a consistent ordering
  its result is determined; it is computed here by insertion, an element moving behind
  those the comparator puts strictly before it.
\<close>

fun insert_sorted :: "('a \<Rightarrow> 'a \<Rightarrow> number) \<Rightarrow> 'a \<Rightarrow> 'a list \<Rightarrow> 'a list" where
  "insert_sorted cmp x [] = [x]"
| "insert_sorted cmp x (y # ys) =
     (if js_gt (cmp x y) (Num 0) then y # insert_sorted cmp x ys else x # y # ys)"

definition Array_sort :: "('a \<Rightarrow> 'a \<Rightarrow> number) \<Rightarrow> 'a list \<Rightarrow> 'a list" where
  "Array_sort cmp xs = foldr (insert_sorted cmp) xs []"

subsection \<open>Formatting with two decimals\<close>

fun decimal :: "nat \<Rightarrow> string" where
  "decimal n =
     (if n < 10 then [''0123456789'' ! n]
      else decimal (n div 10) @ [''0123456789'' ! (n mod 10)])"

declare decimal.simps [simp del]

text \<open>
  \<open>Number.prototype.toFixed(2)\<close>. From \<open>10^21\<close> on it prints the exponent form of
  the double, which exact reals do not determine: \<open>None\<close> there.
\<close>

definition toFixed2 :: "number \<Rightarrow> string option" where
  "toFixed2 a =
     (case a of
        NaN \<Rightarrow> Some ''NaN''
      | PosInf \<Rightarrow> Some ''Infinity''
      | NegInf \<Rightarrow> Some ''-Infinity''
      | Num x \<Rightarrow>
          if 10 ^ 21 \<le> \<bar>x\<bar> then None
          else
            let n = nat \<lfloor>\<bar>x\<bar> * 100 + 1 / 2\<rfloor>;
                m = decimal n;
                m = (if length m \<le> 2 then replicate (3 - length m) CHR ''0'' @ m else m);
                k = length m
            in Some ((if x < 0 then ''-'' else []) @ take (k - 2) m @ ''.'' @ drop (k - 2) m))"

subsection \<open>analyzeTrends\<close>

record risk_entry =
  indicator :: string
  frequency :: nat
  percentage :: number

record trend =
  direction :: string
  change_percentage :: "string option"

record raw_point =
  rp_id :: string
  rp_date :: timestamp
  rp_score :: real

record trend_analysis =
  timeframe :: string
  data_points :: nat
  average_score :: number
  trend :: trend
  common_risk_indicators :: "risk_entry list option"
  ta_raw_data :: "raw_point list"

datatype trend_result =
    TrendError string
  | NoData string "detection_result list"
  | Trend trend_analysis

text \<open>The two halves of the series, \<open>data.slice(0, Math.floor(data.length / 2))\<close> and
  \<open>data.slice(Math.floor(data.length / 2))\<close>, and their averages.\<close>

definition firstHalf :: "detection_result list \<Rightarrow> detection_result list" where
  "firstHalf data = take (length data div 2) data"

definition secondHalf :: "detection_result list \<Rightarrow> detection_result list" where
  "secondHalf data = drop (length data div 2) data"

definition firstHalfAvg :: "detection_result list \<Rightarrow> number" where
  "firstHalfAvg data =
     js_div (sum_confidence (firstHalf data)) (Num (real (length (firstHalf data))))"

definition secondHalfAvg :: "detection_result list \<Rightarrow> number" where
  "secondHalfAvg data =
     js_div (sum_confidence (secondHalf data)) (Num (real (length (secondHalf data))))"

definition trendDirection :: "detection_result list \<Rightarrow> string" where
  "trendDirection data =
     (if js_gt (secondHalfAvg data) (firstHalfAvg data) then ''improving''
      else if js_lt (secondHalfAvg data) (firstHalfAvg data) then ''declining''
      else ''stable'')"

definition changePercentage :: "detection_result list \<Rightarrow> number" where
  "changePercentage data =
     (if js_strict_neq (firstHalfAvg data) (Num 0)
      then Math_abs
             (js_mul
                (js_div (js_sub (secondHalfAvg data) (firstHalfAvg data)) (firstHalfAvg data))
                (Num 100))
      else Num 0)"

text \<open>The ranking of the risk indicators, before and after \<open>slice(0, 5)\<close>.\<close>

definition sortedRiskIndicators :: "detection_result list \<Rightarrow> risk_entry list option" where
  "sortedRiskIndicators data =
     (case countRiskIndicators data of
        None \<Rightarrow> None
      | Some riskIndicators \<Rightarrow>
          Some
            (map (\<lambda>(key, count).
                    \<lparr>indicator = key,
                     frequency = count,
                     percentage =
                       js_mul (js_div (Num (real count)) (Num (real (length data)))) (Num 100)\<rparr>)
               (Array_sort (\<lambda>a b. js_sub (Num (real (snd b))) (Num (real (snd a))))
                  (Object_entries riskIndicators))))"

text \<open>
  \<open>analyzeTrends\<close>, given the response of its query: the results of the user of one
  detection type within the time frame, oldest first.
\<close>

definition analyzeTrends :: "detection_result list response \<Rightarrow> string \<Rightarrow> trend_result" where
  "analyzeTrends query tf =
     (if resp_error query \<noteq> None then TrendError ''Failed to analyze trends''
      else
        (case resp_data query of
           None \<Rightarrow> NoData ''No data available for trend analysis'' []
         | Some rs \<Rightarrow>
             if length rs = 0 then NoData ''No data available for trend analysis'' []
             else
               let scores = map confidence_score rs;
                   avgScore =
                     js_div (foldl (\<lambda>sum score. js_add sum (Num score)) (Num 0) scores)
                       (Num (real (length scores)))
               in Trend
                    \<lparr>timeframe = tf,
                     data_points = length rs,
                     average_score = avgScore,
                     trend =
                       \<lparr>direction = trendDirection rs,
                        change_percentage = toFixed2 (changePercentage rs)\<rparr>,
                     common_risk_indicators = map_option (take 5) (sortedRiskIndicators rs),
                     ta_raw_data =
                       map (\<lambda>item.
                              \<lparr>rp_id = dr_id item,
                               rp_date = dr_created_at item,
                               rp_score = confidence_score item\<rparr>) rs\<rparr>))"

subsection \<open>The ranking in the words of the specification\<close>










section \<open>HTTP responses\<close>

text \<open>
  A handler answers with \<open>NextResponse.json(body)\<close>, status 200, or with
  \<open>NextResponse.json({ error }, { status })\<close>.
\<close>

datatype 'a http = Json 'a | Failed nat string

section \<open>The score endpoint\<close>

text \<open>
  \<open>PUT\<close> of the detection-results route computes the score and stores it in
  \<open>cognitive_scores\<close>. The table is the state; \<open>insertError\<close> is the error the
  client reports for the insert, if any.
\<close>

record score_insert =
  si_user_id :: string
  si_score :: number
  si_status :: string
  si_areas_of_concern :: "string list"
  si_component_scores :: component_scores

definition insert_score ::
  "string option \<Rightarrow> score_insert \<Rightarrow> score_insert list \<Rightarrow> unit response \<times> score_insert list" where
  "insert_score insertError values table =
     (case insertError of
        Some e \<Rightarrow> (\<lparr>resp_data = None, resp_error = Some e\<rparr>, table)
      | None \<Rightarrow> (\<lparr>resp_data = None, resp_error = None\<rparr>, table @ [values]))"

definition detection_results_PUT ::
  "string option \<Rightarrow> string option \<Rightarrow> detection_result list response \<Rightarrow>
   detection_result list response \<Rightarrow> detection_result list response \<Rightarrow> timestamp \<Rightarrow>
   string option \<Rightarrow> score_insert list \<Rightarrow> cognitive_health http \<times> score_insert list" where
  "detection_results_PUT userIdParam user facialQuery speechQuery behavioralQuery now insertError table =
     (case userIdParam of
        None \<Rightarrow> (Failed 400 ''Missing userId parameter'', table)
      | Some userId \<Rightarrow>
          if userId = [] then (Failed 400 ''Missing userId parameter'', table)
          else if user \<noteq> Some userId then (Failed 401 ''Unauthorized'', table)
          else
            (case calculateCognitiveScore facialQuery speechQuery behavioralQuery now of
               Inl e \<Rightarrow> (Failed 500 e, table)
             | Inr cognitiveHealth \<Rightarrow>
                 let (inserted, table') =
                       insert_score insertError
                         \<lparr>si_user_id = userId,
                          si_score = cognitive_score cognitiveHealth,
                          si_status = status cognitiveHealth,
                          si_areas_of_concern = areas_of_concern cognitiveHealth,
                          si_component_scores = component_scores cognitiveHealth\<rparr>
                         table
                 in if resp_error inserted \<noteq> None
                    then (Json cognitiveHealth, table')
                    else (Json cognitiveHealth, table')))"

section \<open>The wellness plan\<close>

subsection \<open>generateWellnessPlan\<close>

record activity =
  act_id :: string
  title :: string
  description :: string
  act_frequency :: string
  duration_minutes :: nat
  difficulty :: string
  category :: string

record schedule =
  recommended_time_of_day :: "(string \<times> string) list"
  weekly_distribution :: "(string \<times> string list) list"
  adaptability :: string

record wellness_plan =
  plan_title :: string
  plan_description :: string
  activities :: "activity list"
  plan_schedule :: schedule
  recommendations :: "(string \<times> string) list"
  plan_created_at :: timestamp
  plan_last_updated :: timestamp

text \<open>What the plan reads of a row of \<open>cognitive_scores\<close>.\<close>

record score_row =
  score :: real
  score_status :: string
  score_areas_of_concern :: "string list option"

type_synonym profile = "(string \<times> json) list"

definition daily_check_in :: activity where
  "daily_check_in =
     \<lparr>act_id = ''daily-check-in'', title = ''Daily Cognitive Check-in'',
      description = ''Complete a brief daily assessment to track your cognitive health'',
      act_frequency = ''daily'', duration_minutes = 5, difficulty = ''easy'',
      category = ''monitoring''\<rparr>"

definition mindfulness_practice :: activity where
  "mindfulness_practice =
     \<lparr>act_id = ''mindfulness-practice'', title = ''Mindfulness Practice'',
      description = ''Practice mindfulness meditation to improve focus and reduce stress'',
      act_frequency = ''daily'', duration_minutes = 10, difficulty = ''easy'',
      category = ''wellness''\<rparr>"

definition facial_exercises :: activity where
  "facial_exercises =
     \<lparr>act_id = ''facial-exercises'', title = ''Facial Expression Exercises'',
      description =
        ''Practice facial movements and expressions to maintain muscle tone and expressiveness'',
      act_frequency = ''3x-weekly'', duration_minutes = 15, difficulty = ''moderate'',
      category = ''facial''\<rparr>"

definition speech_practice :: activity where
  "speech_practice =
     \<lparr>act_id = ''speech-practice'', title = ''Speech Articulation Practice'',
      description =
        ''Read passages aloud focusing on clear articulation and varied intonation'',
      act_frequency = ''daily'', duration_minutes = 15, difficulty = ''moderate'',
      category = ''speech''\<rparr>"

definition word_retrieval :: activity where
  "word_retrieval =
     \<lparr>act_id = ''word-retrieval'', title = ''Word Retrieval Exercises'',
      description = ''Practice word-finding exercises to strengthen lexical retrieval'',
      act_frequency = ''2x-weekly'', duration_minutes = 20, difficulty = ''challenging'',
      category = ''speech''\<rparr>"

definition memory_training :: activity where
  "memory_training =
     \<lparr>act_id = ''memory-training'', title = ''Memory Enhancement Training'',
      description =
        ''Complete memory exercises designed to strengthen recall and recognition'',
      act_frequency = ''daily'', duration_minutes = 20, difficulty = ''adaptive'',
      category = ''cognitive''\<rparr>"

definition social_engagement :: activity where
  "social_engagement =
     \<lparr>act_id = ''social-engagement'', title = ''Social Engagement Activity'',
      description = ''Schedule and participate in a social activity with friends or family'',
      act_frequency = ''weekly'', duration_minutes = 60, difficulty = ''moderate'',
      category = ''social''\<rparr>"

definition physical_exercise :: activity where
  "physical_exercise =
     \<lparr>act_id = ''physical-exercise'', title = ''Physical Exercise Session'',
      description = ''Engage in moderate physical activity to promote brain health'',
      act_frequency = ''3x-weekly'', duration_minutes = 30, difficulty = ''moderate'',
      category = ''physical''\<rparr>"

definition plan_schedule_template :: schedule where
  "plan_schedule_template =
     \<lparr>recommended_time_of_day =
        [(''cognitive_exercises'', ''morning''), (''physical_activities'', ''afternoon''),
         (''relaxation'', ''evening'')],
      weekly_distribution =
        [(''monday'', [''daily-check-in'', ''mindfulness-practice'', ''memory-training'']),
         (''tuesday'', [''daily-check-in'', ''physical-exercise'', ''speech-practice'']),
         (''wednesday'', [''daily-check-in'', ''mindfulness-practice'', ''facial-exercises'']),
         (''thursday'', [''daily-check-in'', ''physical-exercise'', ''word-retrieval'']),
         (''friday'', [''daily-check-in'', ''mindfulness-practice'', ''memory-training'']),
         (''saturday'', [''daily-check-in'', ''physical-exercise'', ''social-engagement'']),
         (''sunday'', [''daily-check-in'', ''mindfulness-practice'', ''rest-day''])],
      adaptability =
        ''Adjust schedule based on energy levels and cognitive load throughout the day''\<rparr>"

definition plan_recommendations :: "(string \<times> string) list" where
  "plan_recommendations =
     [(''sleep'', ''Aim for 7-8 hours of quality sleep each night''),
      (''nutrition'', ''Follow a Mediterranean-style diet rich in omega-3 fatty acids''),
      (''hydration'', ''Drink at least 8 glasses of water daily''),
      (''technology'', ''Take regular breaks from screens and practice digital detox'')]"

text \<open>\<open>Array.prototype.join\<close>\<close>

fun join :: "string \<Rightarrow> string list \<Rightarrow> string" where
  "join sep [] = []"
| "join sep [x] = x"
| "join sep (x # y # ys) = x @ sep @ join sep (y # ys)"

text \<open>\<open>r.risk_indicators && r.risk_indicators.social_withdrawal\<close>\<close>

definition social_withdrawal :: "detection_result \<Rightarrow> bool" where
  "social_withdrawal r =
     (case risk_indicators r of
        None \<Rightarrow> False
      | Some entries \<Rightarrow>
          (case map_of entries ''social_withdrawal'' of
             None \<Rightarrow> False
           | Some v \<Rightarrow> truthy v))"

text \<open>
  The three queries of \<open>generateWellnessPlan\<close> (the latest cognitive score, the ten
  most recent detection results, the profile) are inputs.
\<close>

definition generateWellnessPlan ::
  "score_row list response \<Rightarrow> detection_result list response \<Rightarrow> profile response \<Rightarrow>
   timestamp \<Rightarrow> string + wellness_plan" where
  "generateWellnessPlan cognitiveQuery detectionQuery profileQuery now =
     (if resp_error cognitiveQuery \<noteq> None then Inl ''Failed to fetch cognitive data''
      else if resp_error detectionQuery \<noteq> None then Inl ''Failed to fetch detection results''
      else
        let cognitiveScore =
              (case resp_data cognitiveQuery of
                 Some (latest # others) \<Rightarrow> latest
               | _ \<Rightarrow>
                   \<lparr>score = 75, score_status = ''moderate'',
                    score_areas_of_concern = Some []\<rparr>);
            detectionResults = rows (resp_data detectionQuery);
            facialResults = filter (\<lambda>r. detection_type r = ''facial'') detectionResults;
            speechResults = filter (\<lambda>r. detection_type r = ''speech'') detectionResults;
            behavioralResults =
              filter (\<lambda>r. detection_type r = ''behavioral'') detectionResults;
            activities =
              [daily_check_in, mindfulness_practice] @
              (if length facialResults > 0
                  \<and> list_ex (\<lambda>r. confidence_score r < 0.7) facialResults
               then [facial_exercises] else []) @
              (if length speechResults > 0
                  \<and> list_ex (\<lambda>r. confidence_score r < 0.7) speechResults
               then [speech_practice, word_retrieval] else []) @
              (if score cognitiveScore < 70
                  \<or> (case score_areas_of_concern cognitiveScore of
                        None \<Rightarrow> False
                      | Some areas \<Rightarrow> ''memory'' \<in> set areas)
               then [memory_training] else []) @
              (if length behavioralResults > 0 \<and> list_ex social_withdrawal behavioralResults
               then [social_engagement] else []) @
              [physical_exercise];
            focus =
              (case score_areas_of_concern cognitiveScore of
                 None \<Rightarrow> ''overall cognitive health''
               | Some areas \<Rightarrow>
                   if join '', '' areas = [] then ''overall cognitive health''
                   else join '', '' areas)
        in Inr \<lparr>plan_title = ''Personalized Cognitive Wellness Plan'',
                 plan_description =
                   ''Customized plan based on your cognitive profile and recent assessments. Focus areas include ''
                     @ focus @ ''.'',
                 activities = activities,
                 plan_schedule = plan_schedule_template,
                 recommendations = plan_recommendations,
                 plan_created_at = now,
                 plan_last_updated = now\<rparr>)"

subsection \<open>The plan endpoint\<close>

text \<open>
  \<open>GET\<close> of the wellness-plan route reads and writes the table \<open>wellness_plans\<close>,
  which is the state here. What else the handler depends on is its environment: the
  clock, the authenticated user, the responses of the read-only queries and the errors
  the client reports for the two queries on \<open>wellness_plans\<close>.
\<close>

record plan_row =
  pr_id :: string
  pr_user_id :: string
  pr_title :: string
  pr_description :: string
  pr_activities :: "activity list"
  pr_schedule :: schedule
  is_active :: bool
  pr_created_at :: timestamp
  pr_updated_at :: timestamp

datatype plan_body = Stored plan_row | Generated wellness_plan

record plan_payload =
  plan :: plan_body
  is_new :: bool
  days_remaining :: int

record plan_env =
  env_now :: timestamp
  env_user :: "string option"
  env_planError :: "string option"
  env_cognitiveQuery :: "score_row list response"
  env_detectionQuery :: "detection_result list response"
  env_profileQuery :: "profile response"
  env_saveError :: "string option"
  env_new_id :: string

text \<open>The user's active plans, newest first, at most one.\<close>

definition select_active_plan ::
  "string option \<Rightarrow> string \<Rightarrow> plan_row list \<Rightarrow> plan_row list response" where
  "select_active_plan planError userId table =
     (case planError of
        Some e \<Rightarrow> \<lparr>resp_data = None, resp_error = Some e\<rparr>
      | None \<Rightarrow>
          \<lparr>resp_data =
             Some (take 1
                     (sort_key (\<lambda>p. - pr_created_at p)
                        (filter (\<lambda>p. pr_user_id p = userId \<and> is_active p) table))),
           resp_error = None\<rparr>)"

text \<open>
  The active plan of a user, as a fetch finds it: the newest of the user's rows that
  are marked active.
\<close>

definition active_plan :: "string \<Rightarrow> plan_row list \<Rightarrow> plan_row option" where
  "active_plan userId table =
     (case sort_key (\<lambda>p. - pr_created_at p)
             (filter (\<lambda>p. pr_user_id p = userId \<and> is_active p) table) of
        [] \<Rightarrow> None
      | p # ps \<Rightarrow> Some p)"

text \<open>The insert: the table fills in \<open>id\<close>, \<open>created_at\<close> and \<open>updated_at\<close>.\<close>

definition new_plan_row :: "plan_env \<Rightarrow> string \<Rightarrow> wellness_plan \<Rightarrow> plan_row" where
  "new_plan_row env userId wellnessPlan =
     \<lparr>pr_id = env_new_id env,
      pr_user_id = userId,
      pr_title = plan_title wellnessPlan,
      pr_description = plan_description wellnessPlan,
      pr_activities = activities wellnessPlan,
      pr_schedule = plan_schedule wellnessPlan,
      is_active = True,
      pr_created_at = env_now env,
      pr_updated_at = env_now env\<rparr>"

definition insert_plan ::
  "plan_env \<Rightarrow> string \<Rightarrow> wellness_plan \<Rightarrow> plan_row list \<Rightarrow> plan_row response \<times> plan_row list" where
  "insert_plan env userId wellnessPlan table =
     (case env_saveError env of
        Some e \<Rightarrow> (\<lparr>resp_data = None, resp_error = Some e\<rparr>, table)
      | None \<Rightarrow>
          (\<lparr>resp_data = Some (new_plan_row env userId wellnessPlan), resp_error = None\<rparr>,
           table @ [new_plan_row env userId wellnessPlan]))"

text \<open>The handler from "Generate new wellness plan" on.\<close>

definition generate_and_save ::
  "string \<Rightarrow> plan_env \<Rightarrow> plan_row list \<Rightarrow> plan_payload http \<times> plan_row list" where
  "generate_and_save userId env table =
     (case generateWellnessPlan (env_cognitiveQuery env) (env_detectionQuery env)
             (env_profileQuery env) (env_now env) of
        Inl e \<Rightarrow> (Failed 500 e, table)
      | Inr wellnessPlan \<Rightarrow>
          let (saved, table') = insert_plan env userId wellnessPlan table
          in (Json \<lparr>plan =
                      (case resp_data saved of
                         Some savedPlan \<Rightarrow> Stored savedPlan
                       | None \<Rightarrow> Generated wellnessPlan),
                    is_new = True,
                    days_remaining = 7\<rparr>,
              table'))"

definition wellness_plan_GET ::
  "string option \<Rightarrow> plan_env \<Rightarrow> plan_row list \<Rightarrow> plan_payload http \<times> plan_row list" where
  "wellness_plan_GET userIdParam env table =
     (case userIdParam of
        None \<Rightarrow> (Failed 400 ''Invalid query parameters'', table)
      | Some userId \<Rightarrow>
          if env_user env \<noteq> Some userId then (Failed 401 ''Unauthorized'', table)
          else
            let existing = select_active_plan (env_planError env) userId table
            in if resp_error existing \<noteq> None
               then (Failed 500 ''Failed to check existing plans'', table)
               else
                 (case resp_data existing of
                    Some (existingPlan # others) \<Rightarrow>
                      let daysSinceCreation =
                            (env_now env - pr_created_at existingPlan) div (1000 * 60 * 60 * 24)
                      in if daysSinceCreation < 7
                         then (Json \<lparr>plan = Stored existingPlan,
                                     is_new = False,
                                     days_remaining = 7 - daysSinceCreation\<rparr>,
                               table)
                         else generate_and_save userId env table
                  | _ \<Rightarrow> generate_and_save userId env table))"

section \<open>Wearable data\<close>

subsection \<open>updateHealthMetrics\<close>

text \<open>
  A row of the daily metrics. \<open>hm_created_at\<close> is the instant \<open>new Date\<close> reads from
  the stored value; it is \<open>None\<close> when that is not a date, and then \<open>toISOString\<close>
  throws.
\<close>

record health_metrics =
  hm_id :: string
  hm_user_id :: string
  resting_heart_rate :: "real option"
  sleep_quality :: "string option"
  activity_level :: "string option"
  stress_level :: "string option"
  hm_created_at :: "timestamp option"

text \<open>The object \<open>updateData\<close>: each field is set or absent.\<close>

record metrics_patch =
  set_resting_heart_rate :: "real option"
  set_sleep_quality :: "string option"
  set_activity_level :: "string option"
  set_stress_level :: "string option"

definition no_patch :: metrics_patch where
  "no_patch =
     \<lparr>set_resting_heart_rate = None, set_sleep_quality = None,
      set_activity_level = None, set_stress_level = None\<rparr>"

text \<open>The \<open>switch\<close> on the data type: \<open>None\<close> is its \<open>default\<close> branch, which
  returns from the function.\<close>

definition updateData :: "string \<Rightarrow> real \<Rightarrow> metrics_patch option" where
  "updateData dataType value =
     (if dataType = ''heart_rate''
      then Some (no_patch\<lparr>set_resting_heart_rate := Some value\<rparr>)
      else if dataType = ''sleep''
      then Some (no_patch\<lparr>set_sleep_quality :=
                   Some (if value \<ge> 7 then ''good'' else if value \<ge> 5 then ''fair'' else ''poor'')\<rparr>)
      else if dataType = ''activity''
      then Some (no_patch\<lparr>set_activity_level :=
                   Some (if value \<ge> 10000 then ''high''
                         else if value \<ge> 5000 then ''moderate'' else ''low'')\<rparr>)
      else if dataType = ''stress''
      then Some (no_patch\<lparr>set_stress_level :=
                   Some (if value \<le> 30 then ''low''
                         else if value \<le> 70 then ''moderate'' else ''high'')\<rparr>)
      else None)"

text \<open>An update writes the fields the patch sets and leaves the others.\<close>

definition apply_patch :: "metrics_patch \<Rightarrow> health_metrics \<Rightarrow> health_metrics" where
  "apply_patch p m =
     m\<lparr>resting_heart_rate :=
          (case set_resting_heart_rate p of None \<Rightarrow> resting_heart_rate m | Some x \<Rightarrow> Some x),
       sleep_quality :=
          (case set_sleep_quality p of None \<Rightarrow> sleep_quality m | Some x \<Rightarrow> Some x),
       activity_level :=
          (case set_activity_level p of None \<Rightarrow> activity_level m | Some x \<Rightarrow> Some x),
       stress_level :=
          (case set_stress_level p of None \<Rightarrow> stress_level m | Some x \<Rightarrow> Some x)\<rparr>"

text \<open>
  What the function depends on besides the table \<open>health_metrics\<close>: the response of
  its query for the latest row (\<open>maybeSingle\<close>: a row or \<open>null\<close>), the clock, the error the client reports for the write
  (if any) and the id a new row gets.
\<close>

record metrics_env =
  me_latest :: "health_metrics response"
  me_now :: timestamp
  me_writeError :: "string option"
  me_new_id :: string

definition update_metrics ::
  "metrics_env \<Rightarrow> metrics_patch \<Rightarrow> string \<Rightarrow> health_metrics list \<Rightarrow> health_metrics list" where
  "update_metrics env p row_id table =
     (case me_writeError env of
        Some e \<Rightarrow> table
      | None \<Rightarrow> map (\<lambda>m. if hm_id m = row_id then apply_patch p m else m) table)"

definition insert_metrics ::
  "metrics_env \<Rightarrow> string \<Rightarrow> metrics_patch \<Rightarrow> health_metrics list \<Rightarrow> health_metrics list" where
  "insert_metrics env userId p table =
     (case me_writeError env of
        Some e \<Rightarrow> table
      | None \<Rightarrow>
          table @
          [\<lparr>hm_id = me_new_id env,
            hm_user_id = userId,
            resting_heart_rate = set_resting_heart_rate p,
            sleep_quality = set_sleep_quality p,
            activity_level = set_activity_level p,
            stress_level = set_stress_level p,
            hm_created_at = Some (me_now env)\<rparr>])"

datatype exception = RangeError string

text \<open>The calendar day (UTC) of an instant: the date part of its ISO string.\<close>

definition iso_date :: "timestamp \<Rightarrow> int" where
  "iso_date t = t div 86400000"

text \<open>
  The body of the \<open>try\<close> block. It returns \<open>Inl\<close> the exception it throws, or
  \<open>Inr ()\<close>, and the table as it leaves it.
\<close>

definition updateHealthMetrics_try ::
  "metrics_env \<Rightarrow> string \<Rightarrow> string \<Rightarrow> real \<Rightarrow> health_metrics list \<Rightarrow>
   (exception + unit) \<times> health_metrics list" where
  "updateHealthMetrics_try env userId dataType value table =
     (if resp_error (me_latest env) \<noteq> None then (Inr (), table)
      else
        (case updateData dataType value of
           None \<Rightarrow> (Inr (), table)
         | Some patch \<Rightarrow>
             (case resp_data (me_latest env) of
                Some latestMetrics \<Rightarrow>
                  (case hm_created_at latestMetrics of
                     None \<Rightarrow> (Inl (RangeError ''Invalid time value''), table)
                   | Some created \<Rightarrow>
                       if iso_date (me_now env) = iso_date created
                       then (Inr (), update_metrics env patch (hm_id latestMetrics) table)
                       else (Inr (), insert_metrics env userId patch table))
              | None \<Rightarrow> (Inr (), insert_metrics env userId patch table))))"

text \<open>The function: the \<open>catch\<close> block logs the exception and returns.\<close>

definition updateHealthMetrics ::
  "metrics_env \<Rightarrow> string \<Rightarrow> string \<Rightarrow> real \<Rightarrow> health_metrics list \<Rightarrow>
   (exception + unit) \<times> health_metrics list" where
  "updateHealthMetrics env userId dataType value table =
     (case updateHealthMetrics_try env userId dataType value table of
        (Inl e, table') \<Rightarrow> (Inr (), table')
      | (Inr u, table') \<Rightarrow> (Inr u, table'))"

subsection \<open>The submission endpoint\<close>

text \<open>
  The body of a submission as \<open>request.json()\<close> delivers it (a body that is not JSON
  is not modelled). \<open>wd_timestamp\<close> is the instant the string denotes, \<open>None\<close> when
  it is not an ISO date-time.
\<close>

record wearable_data =
  wd_userId :: string
  device_type :: string
  data_type :: string
  wd_timestamp :: "timestamp option"
  wd_value :: real
  wd_unit :: "string option"
  wd_metadata :: "(string \<times> json) list option"

definition wearableDataSchema :: "wearable_data \<Rightarrow> bool" where
  "wearableDataSchema body =
     (device_type body \<in>
        set [''smartwatch'', ''fitness_tracker'', ''sleep_monitor'', ''medical_device'', ''other'']
      \<and> data_type body \<in>
        set [''heart_rate'', ''sleep'', ''activity'', ''stress'', ''blood_pressure'',
             ''blood_glucose'', ''other'']
      \<and> wd_timestamp body \<noteq> None)"

record wearable_saved =
  ws_data :: "wearable_data option"
  ws_message :: string

text \<open>
  \<open>POST\<close> of the wearable-data route. \<open>inserted\<close> is the response of the insert into
  \<open>wearable_data\<close>, the stored row in its \<open>data\<close>.
\<close>

definition wearable_data_POST ::
  "wearable_data \<Rightarrow> string option \<Rightarrow> wearable_data response \<Rightarrow> metrics_env \<Rightarrow>
   health_metrics list \<Rightarrow> wearable_saved http \<times> health_metrics list" where
  "wearable_data_POST body user inserted env table =
     (if \<not> wearableDataSchema body then (Failed 400 ''Invalid request body'', table)
      else if user \<noteq> Some (wd_userId body) then (Failed 401 ''Unauthorized'', table)
      else if resp_error inserted \<noteq> None then (Failed 500 ''Failed to save wearable data'', table)
      else
        (case updateHealthMetrics env (wd_userId body) (data_type body) (wd_value body) table of
           (Inl e, table') \<Rightarrow> (Failed 500 ''Internal server error'', table')
         | (Inr u, table') \<Rightarrow>
             (Json \<lparr>ws_data = resp_data inserted,
                    ws_message = ''Wearable data saved successfully''\<rparr>, table')))"

section \<open>Sample inputs\<close>

definition sample_result :: "string \<Rightarrow> real \<Rightarrow> detection_result" where
  "sample_result t c =
     \<lparr>dr_id = ''d1'', dr_user_id = ''u1'', detection_type = t, confidence_score = c,
      risk_indicators = None, raw_data = None, dr_created_at = 0\<rparr>"

definition sample_detection ::
  "string \<Rightarrow> real \<Rightarrow> (string \<times> json) list option \<Rightarrow> detection_result" where
  "sample_detection t c ri =
     \<lparr>dr_id = ''d1'', dr_user_id = ''u1'', detection_type = t, confidence_score = c,
      risk_indicators = ri, raw_data = None, dr_created_at = 0\<rparr>"



definition sample_plan_row :: "timestamp \<Rightarrow> plan_row" where
  "sample_plan_row created =
     \<lparr>pr_id = ''p1'', pr_user_id = ''u1'', pr_title = ''Personalized Cognitive Wellness Plan'',
      pr_description = [], pr_activities = [daily_check_in, physical_exercise],
      pr_schedule = plan_schedule_template, is_active = True,
      pr_created_at = created, pr_updated_at = created\<rparr>"

definition sample_plan_env :: "timestamp \<Rightarrow> string option \<Rightarrow> plan_env" where
  "sample_plan_env now saveError =
     \<lparr>env_now = now, env_user = Some ''u1'', env_planError = None,
      env_cognitiveQuery = found [], env_detectionQuery = found [],
      env_profileQuery = found [], env_saveError = saveError, env_new_id = ''p2''\<rparr>"

text \<open>The plan that is generated for a user without scores and detection results.\<close>

definition sample_generated_plan :: "timestamp \<Rightarrow> wellness_plan" where
  "sample_generated_plan now =
     \<lparr>plan_title = ''Personalized Cognitive Wellness Plan'',
      plan_description =
        ''Customized plan based on your cognitive profile and recent assessments. Focus areas include overall cognitive health.'',
      activities = [daily_check_in, mindfulness_practice, physical_exercise],
      plan_schedule = plan_schedule_template,
      recommendations = plan_recommendations,
      plan_created_at = now,
      plan_last_updated = now\<rparr>"

definition sample_metrics :: "timestamp option \<Rightarrow> health_metrics" where
  "sample_metrics created =
     \<lparr>hm_id = ''m1'', hm_user_id = ''u1'', resting_heart_rate = Some 60,
      sleep_quality = None, activity_level = None, stress_level = None,
      hm_created_at = created\<rparr>"

definition sample_metrics_env :: "health_metrics response \<Rightarrow> string option \<Rightarrow> metrics_env" where
  "sample_metrics_env latest writeError =
     \<lparr>me_latest = latest, me_now = 86400000, me_writeError = writeError, me_new_id = ''m2''\<rparr>"

definition sample_wearable :: "string \<Rightarrow> real \<Rightarrow> wearable_data" where
  "sample_wearable dataType value =
     \<lparr>wd_userId = ''u1'', device_type = ''smartwatch'', data_type = dataType,
      wd_timestamp = Some 86400000, wd_value = value, wd_unit = None, wd_metadata = None\<rparr>"

chapter \<open>Properties\<close>

section \<open>The composite cognitive score\<close>

lemma foldl_confidence:
  "foldl (\<lambda>sum item. js_add sum (Num (confidence_score item))) (Num a) results =
     Num (a + sum_list (map confidence_score results))"
  by (induction results arbitrary: a) (simp_all add: add.assoc)

lemma sum_confidence_Num:
  "sum_confidence results = Num (sum_list (map confidence_score results))"
  using foldl_confidence [of 0 results] by (simp add: sum_confidence_def)

lemma avg_channel_mean:
  "results \<noteq> [] \<Longrightarrow>
   js_div (sum_confidence results) (Num (real (length results))) = Num (channel_mean results)"
  by (cases results) (simp_all add: sum_confidence_Num channel_mean_def)

lemma channel_mean_Nil: "channel_mean [] = 0"
  by (simp add: channel_mean_def)


text \<open>What the score calculation returns when no query failed, in real arithmetic.\<close>

lemma calculateCognitiveScore_means:
  fixes fd sd bd now
  defines "f \<equiv> channel_mean (rows fd)" and "s \<equiv> channel_mean (rows sd)"
    and "b \<equiv> channel_mean (rows bd)"
  defines "n \<equiv> round ((f * 0.35 + s * 0.4 + b * 0.25) * 100)"
  shows "calculateCognitiveScore \<lparr>resp_data = fd, resp_error = None\<rparr>
           \<lparr>resp_data = sd, resp_error = None\<rparr> \<lparr>resp_data = bd, resp_error = None\<rparr> now =
     Inr \<lparr>cognitive_score = Num (of_int n),
          status = (if n < 50 then ''concerning'' else if n < 70 then ''moderate'' else ''healthy''),
          areas_of_concern =
              (if f < 0.6 then [''facial expressions''] else []) @
              (if s < 0.6 then [''speech patterns''] else []) @
              (if b < 0.6 then [''behavioral responses''] else []),
          component_scores = \<lparr>facial = Num (of_int (round (f * 100))),
                    speech = Num (of_int (round (s * 100))),
                    behavioral = Num (of_int (round (b * 100)))\<rparr>,
          last_updated = now\<rparr>"
proof -
  have avg: "(case d of
                 Some results \<Rightarrow>
                   if length results > 0
                   then js_div (sum_confidence results) (Num (real (length results)))
                   else Num 0
               | None \<Rightarrow> Num 0) = Num (channel_mean (rows d))" for d
    by (cases d) (simp_all add: rows_def avg_channel_mean channel_mean_Nil)
  show ?thesis
    unfolding calculateCognitiveScore_def avg
    by (simp add: Let_def n_def f_def s_def b_def round_def)
qed









section \<open>Trend analysis: direction and change\<close>



lemma firstHalf_single: "firstHalf [r] = []" and secondHalf_single: "secondHalf [r] = [r]"
  by (simp_all add: firstHalf_def secondHalf_def)

lemma firstHalfAvg_single: "firstHalfAvg [r] = NaN"
  by (simp add: firstHalfAvg_def firstHalf_single sum_confidence_def)

lemma secondHalfAvg_single: "secondHalfAvg [r] = Num (confidence_score r)"
  by (simp add: secondHalfAvg_def secondHalf_single sum_confidence_def)

text \<open>
  Claim C4. For a series of exactly one observation the trend analysis returns the
  direction "stable" and the change percentage 0. The code returns the direction
  "stable", but its change percentage is \<open>NaN\<close>: the first half of the series is
  empty, its average is \<open>0 / 0\<close>, and \<open>NaN !== 0\<close> passes the guard against a zero
  baseline. The theorem states what the code computes for every such series.
\<close>

theorem single_observation_trend:
  "trendDirection [r] = ''stable''
   \<and> changePercentage [r] = NaN
   \<and> (\<exists>a. analyzeTrends (found [r]) tf = Trend a
          \<and> direction (trend a) = ''stable''
          \<and> change_percentage (trend a) = Some ''NaN'')"
proof -
  have d: "trendDirection [r] = ''stable''"
    by (simp add: trendDirection_def firstHalfAvg_single secondHalfAvg_single js_gt_def)
  have c: "changePercentage [r] = NaN"
    by (simp add: changePercentage_def firstHalfAvg_single secondHalfAvg_single
        js_strict_neq_def js_sub_def)
  show ?thesis
    using d c by (simp add: analyzeTrends_def found_def Let_def toFixed2_def)
qed




section \<open>The wellness plan: activities\<close>

lemma list_ex_filter_type:
  "(length (filter (\<lambda>r. detection_type r = t) ds) > 0
      \<and> list_ex P (filter (\<lambda>r. detection_type r = t) ds))
   \<longleftrightarrow> (\<exists>r\<in>set ds. detection_type r = t \<and> P r)"
  by (auto simp: list_ex_iff filter_empty_conv)

text \<open>
  Claim C6. Whatever cognitive score and detection results its queries deliver, the plan
  that \<open>generateWellnessPlan\<close> builds lists first "Daily Cognitive Check-in" and
  "Mindfulness Practice"; then, in this order, the facial exercises when some facial
  result has a confidence score below 0.7, both speech activities when some speech
  result has one below 0.7, the memory training when the score is below 70 or the areas
  of concern contain "memory", and the social engagement when some behavioural result
  has a truthy \<open>social_withdrawal\<close> indicator; and last "Physical Exercise Session".
\<close>

theorem plan_activities:
  fixes cognitiveData :: "score_row list option"
    and detectionData :: "detection_result list option"
  defines "cognitiveScore \<equiv>
    (case cognitiveData of
       Some (latest # older) \<Rightarrow> latest
     | _ \<Rightarrow> \<lparr>score = 75, score_status = ''moderate'', score_areas_of_concern = Some []\<rparr>)"
  defines "detections \<equiv> rows detectionData"
  defines "areas \<equiv> rows (score_areas_of_concern cognitiveScore)"
  shows "\<exists>p. generateWellnessPlan \<lparr>resp_data = cognitiveData, resp_error = None\<rparr>
               \<lparr>resp_data = detectionData, resp_error = None\<rparr> profileQuery now = Inr p
     \<and> map title (activities p) =
         [''Daily Cognitive Check-in'', ''Mindfulness Practice''] @
         (if \<exists>r\<in>set detections. detection_type r = ''facial'' \<and> confidence_score r < 0.7
          then [''Facial Expression Exercises''] else []) @
         (if \<exists>r\<in>set detections. detection_type r = ''speech'' \<and> confidence_score r < 0.7
          then [''Speech Articulation Practice'', ''Word Retrieval Exercises''] else []) @
         (if score cognitiveScore < 70 \<or> ''memory'' \<in> set areas
          then [''Memory Enhancement Training''] else []) @
         (if \<exists>r\<in>set detections. detection_type r = ''behavioral'' \<and> social_withdrawal r
          then [''Social Engagement Activity''] else []) @
         [''Physical Exercise Session'']"
proof -
  define fg where "fg \<longleftrightarrow>
    (\<exists>r\<in>set detections. detection_type r = ''facial'' \<and> confidence_score r < 0.7)"
  define sg where "sg \<longleftrightarrow>
    (\<exists>r\<in>set detections. detection_type r = ''speech'' \<and> confidence_score r < 0.7)"
  define mg where "mg \<longleftrightarrow> score cognitiveScore < 70 \<or> ''memory'' \<in> set areas"
  define bg where "bg \<longleftrightarrow>
    (\<exists>r\<in>set detections. detection_type r = ''behavioral'' \<and> social_withdrawal r)"
  have f: "(length (filter (\<lambda>r. detection_type r = ''facial'') detections) > 0
      \<and> list_ex (\<lambda>r. confidence_score r < 0.7)
            (filter (\<lambda>r. detection_type r = ''facial'') detections)) = fg"
    unfolding fg_def by (rule list_ex_filter_type)
  have s: "(length (filter (\<lambda>r. detection_type r = ''speech'') detections) > 0
      \<and> list_ex (\<lambda>r. confidence_score r < 0.7)
            (filter (\<lambda>r. detection_type r = ''speech'') detections)) = sg"
    unfolding sg_def by (rule list_ex_filter_type)
  have b: "(length (filter (\<lambda>r. detection_type r = ''behavioral'') detections) > 0
      \<and> list_ex social_withdrawal
            (filter (\<lambda>r. detection_type r = ''behavioral'') detections)) = bg"
    unfolding bg_def by (rule list_ex_filter_type)
  have m: "(score cognitiveScore < 70
      \<or> (case score_areas_of_concern cognitiveScore of None \<Rightarrow> False
          | Some areas \<Rightarrow> ''memory'' \<in> set areas)) = mg"
    by (simp add: mg_def areas_def rows_def split: option.splits)
  have titles: "map title [daily_check_in, mindfulness_practice] =
        [''Daily Cognitive Check-in'', ''Mindfulness Practice'']"
      "map title [facial_exercises] = [''Facial Expression Exercises'']"
      "map title [speech_practice, word_retrieval] =
        [''Speech Articulation Practice'', ''Word Retrieval Exercises'']"
      "map title [memory_training] = [''Memory Enhancement Training'']"
      "map title [social_engagement] = [''Social Engagement Activity'']"
      "map title [physical_exercise] = [''Physical Exercise Session'']"
    by (simp_all add: daily_check_in_def mindfulness_practice_def
        facial_exercises_def speech_practice_def word_retrieval_def memory_training_def
        social_engagement_def physical_exercise_def)
  have "\<exists>d. generateWellnessPlan \<lparr>resp_data = cognitiveData, resp_error = None\<rparr>
               \<lparr>resp_data = detectionData, resp_error = None\<rparr> profileQuery now
     = Inr \<lparr>plan_title = ''Personalized Cognitive Wellness Plan'',
             plan_description = d,
             activities =
               [daily_check_in, mindfulness_practice] @
               (if fg then [facial_exercises] else []) @
               (if sg then [speech_practice, word_retrieval] else []) @
               (if mg then [memory_training] else []) @
               (if bg then [social_engagement] else []) @
               [physical_exercise],
             plan_schedule = plan_schedule_template,
             recommendations = plan_recommendations,
             plan_created_at = now,
             plan_last_updated = now\<rparr>"
    unfolding generateWellnessPlan_def Let_def
    apply (simp only: response.simps)
    unfolding cognitiveScore_def [symmetric] detections_def [symmetric]
    by (simp only: f s b m) simp
  then show ?thesis
    unfolding fg_def [symmetric] sg_def [symmetric] mg_def [symmetric] bg_def [symmetric]
    using titles by auto
qed

theorem plan_activities_witness:
  "\<exists>p. generateWellnessPlan
          \<lparr>resp_data = Some [\<lparr>score = 80, score_status = ''healthy'',
                                score_areas_of_concern = Some [''memory'']\<rparr>],
           resp_error = None\<rparr>
          \<lparr>resp_data =
             Some [sample_detection ''facial'' 0.5 None,
                   sample_detection ''speech'' 0.9 None,
                   sample_detection ''behavioral'' 0.9
                     (Some [(''social_withdrawal'', JNumber 0.4)])],
           resp_error = None\<rparr>
          (found []) 0 = Inr p
      \<and> map title (activities p) =
          [''Daily Cognitive Check-in'', ''Mindfulness Practice'',
           ''Facial Expression Exercises'', ''Memory Enhancement Training'',
           ''Social Engagement Activity'', ''Physical Exercise Session'']"
  using plan_activities
    [of "Some [\<lparr>score = 80, score_status = ''healthy'',
                 score_areas_of_concern = Some [''memory'']\<rparr>]"
        "Some [sample_detection ''facial'' 0.5 None,
               sample_detection ''speech'' 0.9 None,
               sample_detection ''behavioral'' 0.9
                 (Some [(''social_withdrawal'', JNumber 0.4)])]"
        "found []" 0]
  by (simp add: rows_def sample_detection_def social_withdrawal_def)

section \<open>The plan endpoint\<close>

lemma age_days_less:
  "((now - created) div (1000 * 60 * 60 * 24) < 7) \<longleftrightarrow> (now - created < 7 * 86400000)"
  for now created :: int
proof -
  define q where "q = (now - created) div 86400000"
  define r where "r = (now - created) mod 86400000"
  have "now - created = 86400000 * q + r"
    by (simp add: q_def r_def)
  moreover have "0 \<le> r" "r < 86400000"
    by (simp_all add: r_def)
  ultimately have "q < 7 \<longleftrightarrow> now - created < 7 * 86400000"
    by linarith
  then show ?thesis by (simp add: q_def)
qed

lemma select_active_plan_ok:
  "select_active_plan None userId table =
     \<lparr>resp_data = Some (case active_plan userId table of None \<Rightarrow> [] | Some p \<Rightarrow> [p]),
      resp_error = None\<rparr>"
  by (simp add: select_active_plan_def active_plan_def split: list.splits)

lemma GET_cached:
  assumes "env_user env = Some userId" "env_planError env = None"
    and "active_plan userId table = Some p"
    and "env_now env - pr_created_at p < 7 * 86400000"
  shows "wellness_plan_GET (Some userId) env table =
     (Json \<lparr>plan = Stored p, is_new = False,
            days_remaining = 7 - (env_now env - pr_created_at p) div 86400000\<rparr>, table)"
  using assms age_days_less [of "env_now env" "pr_created_at p"]
  by (simp add: wellness_plan_GET_def select_active_plan_ok Let_def)

lemma GET_regenerate:
  assumes "env_user env = Some userId" "env_planError env = None"
    and "\<nexists>p. active_plan userId table = Some p \<and> env_now env - pr_created_at p < 7 * 86400000"
  shows "wellness_plan_GET (Some userId) env table = generate_and_save userId env table"
proof (cases "active_plan userId table")
  case None
  with assms show ?thesis
    by (simp add: wellness_plan_GET_def select_active_plan_ok Let_def)
next
  case (Some p)
  with assms(3) have "\<not> env_now env - pr_created_at p < 7 * 86400000" by simp
  with Some assms(1,2) show ?thesis
    using age_days_less [of "env_now env" "pr_created_at p"]
    by (simp add: wellness_plan_GET_def select_active_plan_ok Let_def)
qed

lemma generate_and_save_saved:
  assumes "generateWellnessPlan (env_cognitiveQuery env) (env_detectionQuery env)
             (env_profileQuery env) (env_now env) = Inr wp"
    and "env_saveError env = None"
  shows "generate_and_save userId env table =
     (Json \<lparr>plan = Stored (new_plan_row env userId wp), is_new = True, days_remaining = 7\<rparr>,
      table @ [new_plan_row env userId wp])"
  using assms by (simp add: generate_and_save_def insert_plan_def Let_def new_plan_row_def)

lemma generate_and_save_unsaved:
  assumes "generateWellnessPlan (env_cognitiveQuery env) (env_detectionQuery env)
             (env_profileQuery env) (env_now env) = Inr wp"
    and "env_saveError env = Some e"
  shows "generate_and_save userId env table =
     (Json \<lparr>plan = Generated wp, is_new = True, days_remaining = 7\<rparr>, table)"
  using assms by (simp add: generate_and_save_def insert_plan_def Let_def)

lemma sort_key_newest:
  assumes "\<forall>y\<in>set xs. f x < f y"
  shows "sort_key f (xs @ [x]) = x # sort_key f xs"
  using assms
proof (induction xs)
  case Nil
  then show ?case by simp
next
  case (Cons y ys)
  then have "sort_key f (ys @ [x]) = x # sort_key f ys" by simp
  moreover have "\<not> f y \<le> f x" using Cons.prems by auto
  ultimately show ?case by simp
qed

lemma active_plan_first:
  assumes "active_plan userId table = Some p" "q \<in> set table" "pr_user_id q = userId" "is_active q"
  shows "pr_created_at q \<le> pr_created_at p"
proof -
  let ?xs = "sort_key (\<lambda>p. - pr_created_at p) (filter (\<lambda>p. pr_user_id p = userId \<and> is_active p) table)"
  from assms(1) obtain ps where ps: "?xs = p # ps"
    by (auto simp: active_plan_def split: list.splits)
  have "sorted (map (\<lambda>p. - pr_created_at p) ?xs)" by (rule sorted_sort_key)
  with ps have "\<forall>y\<in>set ps. - pr_created_at p \<le> - pr_created_at y" by simp
  moreover have "q \<in> set ?xs" using assms(2-4) by simp
  ultimately show ?thesis using ps by auto
qed

lemma active_plan_None:
  assumes "active_plan userId table = None" "q \<in> set table" "pr_user_id q = userId" "is_active q"
  shows False
proof -
  let ?xs = "sort_key (\<lambda>p. - pr_created_at p) (filter (\<lambda>p. pr_user_id p = userId \<and> is_active p) table)"
  from assms(1) have "?xs = []" by (auto simp: active_plan_def split: list.splits)
  then have "set ?xs = {}" by simp
  with assms(2-4) show False by simp
qed

lemma active_plan_after_save:
  assumes "\<nexists>p. active_plan userId table = Some p \<and> env_now env - pr_created_at p < 7 * 86400000"
  shows "active_plan userId (table @ [new_plan_row env userId wp]) = Some (new_plan_row env userId wp)"
proof -
  let ?P = "\<lambda>p. pr_user_id p = userId \<and> is_active p"
  let ?f = "\<lambda>p. - pr_created_at p"
  have older: "pr_created_at q < env_now env" if "q \<in> set (filter ?P table)" for q
  proof (cases "active_plan userId table")
    case None
    with that show ?thesis using active_plan_None by fastforce
  next
    case (Some p)
    with that have "pr_created_at q \<le> pr_created_at p" using active_plan_first by fastforce
    moreover from Some assms have "\<not> env_now env - pr_created_at p < 7 * 86400000" by simp
    ultimately show ?thesis by simp
  qed
  have "filter ?P (table @ [new_plan_row env userId wp]) = filter ?P table @ [new_plan_row env userId wp]"
    by (simp add: new_plan_row_def)
  moreover have "\<forall>y\<in>set (filter ?P table). ?f (new_plan_row env userId wp) < ?f y"
    using older by (simp add: new_plan_row_def)
  ultimately have "sort_key ?f (filter ?P (table @ [new_plan_row env userId wp])) =
      new_plan_row env userId wp # sort_key ?f (filter ?P table)"
    using sort_key_newest [of "filter ?P table" ?f "new_plan_row env userId wp"] by simp
  then show ?thesis by (simp add: active_plan_def)
qed

text \<open>
  Claim C7. For a fetch of the authenticated user whose query for the active plan
  succeeds: when the active plan is less than 7 days old, the handler returns it with
  \<open>is_new = false\<close> and \<open>days_remaining = 7 - ageInDays\<close> and leaves the table as it
  is; otherwise, when the plan can be generated, it tries to store the plan and answers
  with \<open>is_new = true\<close> and \<open>days_remaining = 7\<close>: with the stored row, which is then
  the active plan, when the insert succeeds, and with the generated plan, the table
  unchanged, when it fails. Hence a fetch within 7 days of the creation of a stored
  plan that an earlier fetch returned returns the same plan, with \<open>is_new = false\<close>,
  and writes nothing.
\<close>

theorem plan_caching:
  assumes "env_user env = Some userId" and "env_planError env = None"
  shows
    "(\<forall>p. active_plan userId table = Some p \<and> env_now env - pr_created_at p < 7 * 86400000
        \<longrightarrow> wellness_plan_GET (Some userId) env table =
              (Json \<lparr>plan = Stored p, is_new = False,
                     days_remaining = 7 - (env_now env - pr_created_at p) div 86400000\<rparr>,
               table))
     \<and> ((\<nexists>p. active_plan userId table = Some p
              \<and> env_now env - pr_created_at p < 7 * 86400000)
        \<longrightarrow> (\<forall>wp. generateWellnessPlan (env_cognitiveQuery env) (env_detectionQuery env)
                    (env_profileQuery env) (env_now env) = Inr wp
              \<longrightarrow> (case env_saveError env of
                     None \<Rightarrow>
                       wellness_plan_GET (Some userId) env table =
                         (Json \<lparr>plan = Stored (new_plan_row env userId wp), is_new = True,
                                days_remaining = 7\<rparr>,
                          table @ [new_plan_row env userId wp])
                       \<and> active_plan userId (table @ [new_plan_row env userId wp]) =
                           Some (new_plan_row env userId wp)
                   | Some e \<Rightarrow>
                       wellness_plan_GET (Some userId) env table =
                         (Json \<lparr>plan = Generated wp, is_new = True, days_remaining = 7\<rparr>,
                          table))))
     \<and> (\<forall>r row table' env'.
           wellness_plan_GET (Some userId) env table = (Json r, table')
           \<and> plan r = Stored row
           \<and> env_user env' = Some userId \<and> env_planError env' = None
           \<and> env_now env' - pr_created_at row < 7 * 86400000
        \<longrightarrow> wellness_plan_GET (Some userId) env' table' =
              (Json \<lparr>plan = Stored row, is_new = False,
                     days_remaining = 7 - (env_now env' - pr_created_at row) div 86400000\<rparr>,
               table'))"
proof (intro conjI allI impI)
  fix p :: plan_row
  assume "active_plan userId table = Some p \<and> env_now env - pr_created_at p < 7 * 86400000"
  then show "wellness_plan_GET (Some userId) env table =
              (Json \<lparr>plan = Stored p, is_new = False,
                     days_remaining = 7 - (env_now env - pr_created_at p) div 86400000\<rparr>,
               table)"
    using assms GET_cached by blast
next
  fix wp :: wellness_plan
  assume stale: "\<nexists>p. active_plan userId table = Some p
              \<and> env_now env - pr_created_at p < 7 * 86400000"
    and wp: "generateWellnessPlan (env_cognitiveQuery env) (env_detectionQuery env)
                    (env_profileQuery env) (env_now env) = Inr wp"
  from stale have g: "wellness_plan_GET (Some userId) env table =
      generate_and_save userId env table"
    using assms by (rule GET_regenerate [rotated 2])
  show "case env_saveError env of
          None \<Rightarrow>
            wellness_plan_GET (Some userId) env table =
              (Json \<lparr>plan = Stored (new_plan_row env userId wp), is_new = True,
                     days_remaining = 7\<rparr>,
               table @ [new_plan_row env userId wp])
            \<and> active_plan userId (table @ [new_plan_row env userId wp]) =
                Some (new_plan_row env userId wp)
        | Some e \<Rightarrow>
            wellness_plan_GET (Some userId) env table =
              (Json \<lparr>plan = Generated wp, is_new = True, days_remaining = 7\<rparr>, table)"
  proof (cases "env_saveError env")
    case None
    with g wp stale show ?thesis
      by (simp add: generate_and_save_saved active_plan_after_save)
  next
    case (Some e)
    with g wp show ?thesis
      by (simp add: generate_and_save_unsaved)
  qed
next
  fix r :: plan_payload and row :: plan_row and table' :: "plan_row list" and env' :: plan_env
  assume h: "wellness_plan_GET (Some userId) env table = (Json r, table')
           \<and> plan r = Stored row
           \<and> env_user env' = Some userId \<and> env_planError env' = None
           \<and> env_now env' - pr_created_at row < 7 * 86400000"
  have "active_plan userId table' = Some row"
  proof (cases "\<exists>p. active_plan userId table = Some p
              \<and> env_now env - pr_created_at p < 7 * 86400000")
    case True
    then obtain p where p: "active_plan userId table = Some p"
        "env_now env - pr_created_at p < 7 * 86400000" by blast
    with h assms show ?thesis by (auto simp: GET_cached)
  next
    case False
    with h assms have g: "generate_and_save userId env table = (Json r, table')"
      by (simp add: GET_regenerate)
    then obtain wp where wp: "generateWellnessPlan (env_cognitiveQuery env)
        (env_detectionQuery env) (env_profileQuery env) (env_now env) = Inr wp"
      by (auto simp: generate_and_save_def split: sum.splits)
    show ?thesis
    proof (cases "env_saveError env")
      case None
      with g h wp have "row = new_plan_row env userId wp"
          "table' = table @ [new_plan_row env userId wp]"
        by (auto simp: generate_and_save_saved)
      with False show ?thesis by (simp add: active_plan_after_save)
    next
      case (Some e)
      with g h wp show ?thesis by (auto simp: generate_and_save_unsaved)
    qed
  qed
  with h show "wellness_plan_GET (Some userId) env' table' =
              (Json \<lparr>plan = Stored row, is_new = False,
                     days_remaining = 7 - (env_now env' - pr_created_at row) div 86400000\<rparr>,
               table')"
    by (simp add: GET_cached)
qed

theorem plan_caching_witness:
  "wellness_plan_GET (Some ''u1'') (sample_plan_env (3 * 86400000 + 5) None) [sample_plan_row 0]
     = (Json \<lparr>plan = Stored (sample_plan_row 0), is_new = False, days_remaining = 4\<rparr>,
        [sample_plan_row 0])
   \<and> (\<exists>row. wellness_plan_GET (Some ''u1'') (sample_plan_env (8 * 86400000) None)
               [sample_plan_row 0]
             = (Json \<lparr>plan = Stored row, is_new = True, days_remaining = 7\<rparr>,
                [sample_plan_row 0, row])
          \<and> pr_created_at row = 8 * 86400000
          \<and> wellness_plan_GET (Some ''u1'') (sample_plan_env (9 * 86400000) None)
               [sample_plan_row 0, row]
             = (Json \<lparr>plan = Stored row, is_new = False, days_remaining = 6\<rparr>,
                [sample_plan_row 0, row]))"
proof -
  have a: "active_plan ''u1'' [sample_plan_row 0] = Some (sample_plan_row 0)"
    by (simp add: active_plan_def sample_plan_row_def)
  have c: "pr_created_at (sample_plan_row 0) = 0"
    by (simp add: sample_plan_row_def)
  have e: "env_user (sample_plan_env t s) = Some ''u1''" "env_planError (sample_plan_env t s) = None"
      "env_now (sample_plan_env t s) = t" "env_saveError (sample_plan_env t s) = s" for t s
    by (simp_all add: sample_plan_env_def)
  obtain wp where wp: "generateWellnessPlan (env_cognitiveQuery (sample_plan_env (8 * 86400000) None))
      (env_detectionQuery (sample_plan_env (8 * 86400000) None))
      (env_profileQuery (sample_plan_env (8 * 86400000) None))
      (env_now (sample_plan_env (8 * 86400000) None)) = Inr wp"
    by (simp add: generateWellnessPlan_def sample_plan_env_def found_def Let_def)
  let ?row = "new_plan_row (sample_plan_env (8 * 86400000) None) ''u1'' wp"
  have first: "wellness_plan_GET (Some ''u1'') (sample_plan_env (3 * 86400000 + 5) None)
      [sample_plan_row 0]
     = (Json \<lparr>plan = Stored (sample_plan_row 0), is_new = False, days_remaining = 4\<rparr>,
        [sample_plan_row 0])"
    using plan_caching [of "sample_plan_env (3 * 86400000 + 5) None" "''u1''" "[sample_plan_row 0]"]
      a c e by simp
  have second: "wellness_plan_GET (Some ''u1'') (sample_plan_env (8 * 86400000) None)
               [sample_plan_row 0]
             = (Json \<lparr>plan = Stored ?row, is_new = True, days_remaining = 7\<rparr>,
                [sample_plan_row 0, ?row])"
    and active: "active_plan ''u1'' ([sample_plan_row 0] @ [?row]) = Some ?row"
    using plan_caching [of "sample_plan_env (8 * 86400000) None" "''u1''" "[sample_plan_row 0]"]
      a c e wp by simp_all
  have r: "pr_created_at ?row = 8 * 86400000"
    by (simp add: new_plan_row_def e)
  have third: "wellness_plan_GET (Some ''u1'') (sample_plan_env (9 * 86400000) None)
               [sample_plan_row 0, ?row]
             = (Json \<lparr>plan = Stored ?row, is_new = False, days_remaining = 6\<rparr>,
                [sample_plan_row 0, ?row])"
    using plan_caching [of "sample_plan_env (9 * 86400000) None" "''u1''" "[sample_plan_row 0, ?row]"]
      active r e by simp
  from first second third r show ?thesis by blast
qed

lemma generate_sample_plan:
  "generateWellnessPlan (found []) (found []) (found []) now = Inr (sample_generated_plan now)"
  by (simp add: generateWellnessPlan_def found_def Let_def rows_def sample_generated_plan_def)

text \<open>
  The claim as it was stated fails where the store fails. When the insert fails, the
  generated plan is returned with \<open>is_new = true\<close> but is not stored, and the next
  fetch generates again. When the query for the active plan fails, a plan that is less
  than 7 days old is not returned; when a query of the generation fails, no plan is.
\<close>

theorem unsaved_plan_counterexample:
  "wellness_plan_GET (Some ''u1'') (sample_plan_env 5 (Some ''insert failed'')) [] =
     (Json \<lparr>plan = Generated (sample_generated_plan 5), is_new = True, days_remaining = 7\<rparr>, [])
   \<and> wellness_plan_GET (Some ''u1'') (sample_plan_env 6 (Some ''insert failed'')) [] =
     (Json \<lparr>plan = Generated (sample_generated_plan 6), is_new = True, days_remaining = 7\<rparr>, [])
   \<and> active_plan ''u1'' [sample_plan_row 0] = Some (sample_plan_row 0)
   \<and> wellness_plan_GET (Some ''u1'')
       ((sample_plan_env 5 None)\<lparr>env_planError := Some ''lookup failed''\<rparr>) [sample_plan_row 0] =
     (Failed 500 ''Failed to check existing plans'', [sample_plan_row 0])
   \<and> wellness_plan_GET (Some ''u1'')
       ((sample_plan_env 5 None)
          \<lparr>env_detectionQuery := \<lparr>resp_data = None, resp_error = Some ''query failed''\<rparr>\<rparr>) [] =
     (Failed 500 ''Failed to fetch detection results'', [])"
proof -
  have unsaved: "wellness_plan_GET (Some ''u1'') (sample_plan_env t (Some ''insert failed'')) [] =
     (Json \<lparr>plan = Generated (sample_generated_plan t), is_new = True, days_remaining = 7\<rparr>, [])"
    for t
    by (simp add: wellness_plan_GET_def select_active_plan_def sample_plan_env_def Let_def
        generate_and_save_def generate_sample_plan insert_plan_def)
  have a: "active_plan ''u1'' [sample_plan_row 0] = Some (sample_plan_row 0)"
    by (simp add: active_plan_def sample_plan_row_def)
  have l: "wellness_plan_GET (Some ''u1'')
       ((sample_plan_env 5 None)\<lparr>env_planError := Some ''lookup failed''\<rparr>) [sample_plan_row 0] =
     (Failed 500 ''Failed to check existing plans'', [sample_plan_row 0])"
    by (simp add: wellness_plan_GET_def select_active_plan_def sample_plan_env_def Let_def)
  have q: "wellness_plan_GET (Some ''u1'')
       ((sample_plan_env 5 None)
          \<lparr>env_detectionQuery := \<lparr>resp_data = None, resp_error = Some ''query failed''\<rparr>\<rparr>) [] =
     (Failed 500 ''Failed to fetch detection results'', [])"
    by (simp add: wellness_plan_GET_def select_active_plan_def sample_plan_env_def Let_def
        generate_and_save_def generateWellnessPlan_def found_def)
  from unsaved [of 5] unsaved [of 6] a l q show ?thesis by simp
qed

section \<open>Persistence is best effort\<close>

lemma PUT_returns_score:
  assumes "userId \<noteq> []"
    and "calculateCognitiveScore facialQuery speechQuery behavioralQuery now = Inr cognitiveHealth"
  shows "fst (detection_results_PUT (Some userId) (Some userId) facialQuery speechQuery
                behavioralQuery now insertError table) = Json cognitiveHealth"
  using assms
  by (simp add: detection_results_PUT_def insert_score_def split: option.splits)

lemma PUT_insert_failed:
  assumes "userId \<noteq> []"
    and "calculateCognitiveScore facialQuery speechQuery behavioralQuery now = Inr cognitiveHealth"
  shows "detection_results_PUT (Some userId) (Some userId) facialQuery speechQuery
           behavioralQuery now (Some e) table = (Json cognitiveHealth, table)"
  using assms
  by (simp add: detection_results_PUT_def insert_score_def)

text \<open>
  Claim C9. When the score has been computed, the score endpoint returns it although
  the insert into \<open>cognitive_scores\<close> fails, as it does when the insert succeeds; when
  a plan has been generated, the plan endpoint returns it, with \<open>is_new = true\<close> and
  \<open>days_remaining = 7\<close>, although the insert into \<open>wellness_plans\<close> fails.
\<close>

theorem computed_value_returned:
  "(userId \<noteq> []
      \<and> calculateCognitiveScore facialQuery speechQuery behavioralQuery now = Inr cognitiveHealth
    \<longrightarrow> detection_results_PUT (Some userId) (Some userId) facialQuery speechQuery
           behavioralQuery now (Some e) table = (Json cognitiveHealth, table)
        \<and> fst (detection_results_PUT (Some userId) (Some userId) facialQuery speechQuery
                 behavioralQuery now None table) = Json cognitiveHealth)
   \<and> (env_user env = Some userId \<and> env_planError env = None
      \<and> (\<nexists>p. active_plan userId plans = Some p
             \<and> env_now env - pr_created_at p < 7 * 86400000)
      \<and> generateWellnessPlan (env_cognitiveQuery env) (env_detectionQuery env)
           (env_profileQuery env) (env_now env) = Inr wellnessPlan
      \<and> env_saveError env = Some e'
    \<longrightarrow> wellness_plan_GET (Some userId) env plans =
          (Json \<lparr>plan = Generated wellnessPlan, is_new = True, days_remaining = 7\<rparr>, plans))"
proof (intro conjI impI)
  assume h: "userId \<noteq> []
      \<and> calculateCognitiveScore facialQuery speechQuery behavioralQuery now = Inr cognitiveHealth"
  then show "detection_results_PUT (Some userId) (Some userId) facialQuery speechQuery
           behavioralQuery now (Some e) table = (Json cognitiveHealth, table)"
    by (simp add: PUT_insert_failed)
  from h show "fst (detection_results_PUT (Some userId) (Some userId) facialQuery speechQuery
                 behavioralQuery now None table) = Json cognitiveHealth"
    by (simp add: PUT_returns_score)
next
  assume h: "env_user env = Some userId \<and> env_planError env = None
      \<and> (\<nexists>p. active_plan userId plans = Some p
             \<and> env_now env - pr_created_at p < 7 * 86400000)
      \<and> generateWellnessPlan (env_cognitiveQuery env) (env_detectionQuery env)
           (env_profileQuery env) (env_now env) = Inr wellnessPlan
      \<and> env_saveError env = Some e'"
  then have "wellness_plan_GET (Some userId) env plans = generate_and_save userId env plans"
    by (intro GET_regenerate) simp_all
  with h show "wellness_plan_GET (Some userId) env plans =
          (Json \<lparr>plan = Generated wellnessPlan, is_new = True, days_remaining = 7\<rparr>, plans)"
    by (simp add: generate_and_save_unsaved)
qed

theorem computed_value_returned_witness:
  "(\<exists>h. calculateCognitiveScore (found [sample_result ''facial'' 1]) (found []) (found []) 0 = Inr h
        \<and> cognitive_score h = Num 35
        \<and> detection_results_PUT (Some ''u1'') (Some ''u1'') (found [sample_result ''facial'' 1])
             (found []) (found []) 0 (Some ''insert failed'') [] = (Json h, []))
   \<and> (\<exists>wp. generateWellnessPlan (found []) (found []) (found []) 5 = Inr wp
        \<and> wellness_plan_GET (Some ''u1'') (sample_plan_env 5 (Some ''insert failed'')) []
            = (Json \<lparr>plan = Generated wp, is_new = True, days_remaining = 7\<rparr>, []))"
proof -
  obtain h where h: "calculateCognitiveScore (found [sample_result ''facial'' 1]) (found [])
      (found []) 0 = Inr h" and s: "cognitive_score h = Num 35"
    using calculateCognitiveScore_means [of "Some [sample_result ''facial'' 1]" "Some []" "Some []" 0]
    by (simp add: found_def rows_def channel_mean_def sample_result_def round_def)
  have u: "''u1'' \<noteq> []" by simp
  have put: "detection_results_PUT (Some ''u1'') (Some ''u1'') (found [sample_result ''facial'' 1])
             (found []) (found []) 0 (Some ''insert failed'') [] = (Json h, [])"
    using computed_value_returned
      [where userId = "''u1''" and facialQuery = "found [sample_result ''facial'' 1]"
         and speechQuery = "found []" and behavioralQuery = "found []" and now = 0
         and cognitiveHealth = h and e = "''insert failed''" and table = "[]",
       THEN conjunct1] u h by simp
  obtain wp where wp: "generateWellnessPlan (found []) (found []) (found []) 5 = Inr wp"
    by (simp add: generateWellnessPlan_def found_def Let_def)
  have e: "env_user (sample_plan_env 5 (Some ''insert failed'')) = Some ''u1''"
      "env_planError (sample_plan_env 5 (Some ''insert failed'')) = None"
      "env_now (sample_plan_env 5 (Some ''insert failed'')) = 5"
      "env_saveError (sample_plan_env 5 (Some ''insert failed'')) = Some ''insert failed''"
      "env_cognitiveQuery (sample_plan_env 5 (Some ''insert failed'')) = found []"
      "env_detectionQuery (sample_plan_env 5 (Some ''insert failed'')) = found []"
      "env_profileQuery (sample_plan_env 5 (Some ''insert failed'')) = found []"
    by (simp_all add: sample_plan_env_def)
  have n: "\<nexists>p. active_plan ''u1'' [] = Some p
       \<and> env_now (sample_plan_env 5 (Some ''insert failed'')) - pr_created_at p < 7 * 86400000"
    by (simp add: active_plan_def)
  have "wellness_plan_GET (Some ''u1'') (sample_plan_env 5 (Some ''insert failed'')) []
            = (Json \<lparr>plan = Generated wp, is_new = True, days_remaining = 7\<rparr>, [])"
    using computed_value_returned
      [where env = "sample_plan_env 5 (Some ''insert failed'')" and userId = "''u1''"
         and plans = "[]" and wellnessPlan = wp and e' = "''insert failed''",
       THEN conjunct2] e n wp by simp
  with h s put wp show ?thesis by blast
qed

section \<open>Wearable data\<close>

lemma updateData_other:
  assumes "dataType \<notin> {''heart_rate'', ''sleep'', ''activity'', ''stress''}"
  shows "updateData dataType v = None"
  using assms by (simp add: updateData_def)

text \<open>
  Claim C8. The patch of the daily metrics: \<open>heart_rate\<close> sets the resting heart rate
  to the value; \<open>sleep\<close> sets the sleep quality to "good" from 7, "fair" from 5 and
  "poor" below; \<open>activity\<close> sets the activity level to "high" from 10000, "moderate"
  from 5000 and "low" below; \<open>stress\<close> sets the stress level to "low" up to 30,
  "moderate" up to 70 and "high" above. For any other data type there is no patch and
  \<open>updateHealthMetrics\<close> leaves the table as it is.
\<close>

theorem metric_buckets:
  "updateData ''heart_rate'' v = Some (no_patch\<lparr>set_resting_heart_rate := Some v\<rparr>)
   \<and> (\<exists>q. updateData ''sleep'' v = Some (no_patch\<lparr>set_sleep_quality := Some q\<rparr>)
         \<and> (q = ''good'' \<longleftrightarrow> 7 \<le> v)
         \<and> (q = ''fair'' \<longleftrightarrow> 5 \<le> v \<and> v < 7)
         \<and> (q = ''poor'' \<longleftrightarrow> v < 5))
   \<and> (\<exists>q. updateData ''activity'' v = Some (no_patch\<lparr>set_activity_level := Some q\<rparr>)
         \<and> (q = ''high'' \<longleftrightarrow> 10000 \<le> v)
         \<and> (q = ''moderate'' \<longleftrightarrow> 5000 \<le> v \<and> v < 10000)
         \<and> (q = ''low'' \<longleftrightarrow> v < 5000))
   \<and> (\<exists>q. updateData ''stress'' v = Some (no_patch\<lparr>set_stress_level := Some q\<rparr>)
         \<and> (q = ''low'' \<longleftrightarrow> v \<le> 30)
         \<and> (q = ''moderate'' \<longleftrightarrow> 30 < v \<and> v \<le> 70)
         \<and> (q = ''high'' \<longleftrightarrow> 70 < v))
   \<and> (dataType \<notin> {''heart_rate'', ''sleep'', ''activity'', ''stress''}
        \<longrightarrow> updateData dataType v = None
          \<and> updateHealthMetrics env userId dataType v table = (Inr (), table))"
proof (intro conjI impI)
  show "updateData ''heart_rate'' v = Some (no_patch\<lparr>set_resting_heart_rate := Some v\<rparr>)"
    by (simp add: updateData_def)
  show "\<exists>q. updateData ''sleep'' v = Some (no_patch\<lparr>set_sleep_quality := Some q\<rparr>)
         \<and> (q = ''good'' \<longleftrightarrow> 7 \<le> v)
         \<and> (q = ''fair'' \<longleftrightarrow> 5 \<le> v \<and> v < 7)
         \<and> (q = ''poor'' \<longleftrightarrow> v < 5)"
    by (simp add: updateData_def)
  show "\<exists>q. updateData ''activity'' v = Some (no_patch\<lparr>set_activity_level := Some q\<rparr>)
         \<and> (q = ''high'' \<longleftrightarrow> 10000 \<le> v)
         \<and> (q = ''moderate'' \<longleftrightarrow> 5000 \<le> v \<and> v < 10000)
         \<and> (q = ''low'' \<longleftrightarrow> v < 5000)"
    by (simp add: updateData_def)
  show "\<exists>q. updateData ''stress'' v = Some (no_patch\<lparr>set_stress_level := Some q\<rparr>)
         \<and> (q = ''low'' \<longleftrightarrow> v \<le> 30)
         \<and> (q = ''moderate'' \<longleftrightarrow> 30 < v \<and> v \<le> 70)
         \<and> (q = ''high'' \<longleftrightarrow> 70 < v)"
    by (simp add: updateData_def)
next
  assume other: "dataType \<notin> {''heart_rate'', ''sleep'', ''activity'', ''stress''}"
  then show "updateData dataType v = None"
    by (rule updateData_other)
  then show "updateHealthMetrics env userId dataType v table = (Inr (), table)"
    by (simp add: updateHealthMetrics_def updateHealthMetrics_try_def)
qed

theorem metric_buckets_witness:
  "''blood_pressure'' \<notin> {''heart_rate'', ''sleep'', ''activity'', ''stress''}
   \<and> updateData ''blood_pressure'' 120 = None
   \<and> updateHealthMetrics (sample_metrics_env (found (sample_metrics (Some 86400001))) None)
        ''u1'' ''blood_pressure'' 120 [sample_metrics (Some 86400001)]
      = (Inr (), [sample_metrics (Some 86400001)])
   \<and> updateData ''sleep'' 7.5 = Some (no_patch\<lparr>set_sleep_quality := Some ''good''\<rparr>)
   \<and> updateData ''sleep'' 6 = Some (no_patch\<lparr>set_sleep_quality := Some ''fair''\<rparr>)
   \<and> updateData ''sleep'' 4 = Some (no_patch\<lparr>set_sleep_quality := Some ''poor''\<rparr>)"
proof -
  have o: "''blood_pressure'' \<notin> {''heart_rate'', ''sleep'', ''activity'', ''stress''}"
    by simp
  have "updateData ''blood_pressure'' 120 = None
     \<and> updateHealthMetrics (sample_metrics_env (found (sample_metrics (Some 86400001))) None)
        ''u1'' ''blood_pressure'' 120 [sample_metrics (Some 86400001)]
      = (Inr (), [sample_metrics (Some 86400001)])"
    using metric_buckets
      [where dataType = "''blood_pressure''" and v = 120
         and env = "sample_metrics_env (found (sample_metrics (Some 86400001))) None"
         and userId = "''u1''" and table = "[sample_metrics (Some 86400001)]",
       THEN conjunct2, THEN conjunct2, THEN conjunct2, THEN conjunct2, THEN mp, OF o]
    by simp
  moreover have "updateData ''sleep'' 7.5 = Some (no_patch\<lparr>set_sleep_quality := Some ''good''\<rparr>)"
    "updateData ''sleep'' 6 = Some (no_patch\<lparr>set_sleep_quality := Some ''fair''\<rparr>)"
    "updateData ''sleep'' 4 = Some (no_patch\<lparr>set_sleep_quality := Some ''poor''\<rparr>)"
    by (simp_all add: updateData_def)
  ultimately show ?thesis using o by blast
qed

lemma updateHealthMetrics_returns:
  "fst (updateHealthMetrics env userId dataType value table) = Inr ()"
  by (simp add: updateHealthMetrics_def split: prod.splits sum.splits)

text \<open>
  Claim C10. For a valid submission of the authenticated user whose insert into
  \<open>wearable_data\<close> succeeds, the endpoint answers with the stored row and the success
  message, whatever happens in the update of the daily metrics: \<open>updateHealthMetrics\<close>
  returns normally when its query fails, when its write fails and when its body throws.
\<close>

theorem metrics_update_invisible:
  assumes "wearableDataSchema body" and "user = Some (wd_userId body)"
    and "resp_error inserted = None"
  shows "fst (wearable_data_POST body user inserted env table) =
           Json \<lparr>ws_data = resp_data inserted,
                 ws_message = ''Wearable data saved successfully''\<rparr>
     \<and> fst (updateHealthMetrics env (wd_userId body) (data_type body) (wd_value body) table)
         = Inr ()"
proof -
  obtain table' where "updateHealthMetrics env (wd_userId body) (data_type body) (wd_value body)
      table = (Inr (), table')"
    using updateHealthMetrics_returns
      [of env "wd_userId body" "data_type body" "wd_value body" table]
    by (cases "updateHealthMetrics env (wd_userId body) (data_type body) (wd_value body) table")
      simp
  with assms show ?thesis
    by (simp add: wearable_data_POST_def)
qed

theorem metrics_update_invisible_witness:
  "wearableDataSchema (sample_wearable ''sleep'' 8)
   \<and> fst (updateHealthMetrics_try (sample_metrics_env (found (sample_metrics None)) None)
           ''u1'' ''sleep'' 8 []) = Inl (RangeError ''Invalid time value'')
   \<and> fst (wearable_data_POST (sample_wearable ''sleep'' 8) (Some ''u1'')
           (found (sample_wearable ''sleep'' 8))
           (sample_metrics_env (found (sample_metrics None)) None) [])
       = Json \<lparr>ws_data = Some (sample_wearable ''sleep'' 8),
               ws_message = ''Wearable data saved successfully''\<rparr>
   \<and> fst (wearable_data_POST (sample_wearable ''sleep'' 8) (Some ''u1'')
           (found (sample_wearable ''sleep'' 8))
           (sample_metrics_env \<lparr>resp_data = None, resp_error = Some ''fetch failed''\<rparr> None) [])
       = Json \<lparr>ws_data = Some (sample_wearable ''sleep'' 8),
               ws_message = ''Wearable data saved successfully''\<rparr>
   \<and> fst (wearable_data_POST (sample_wearable ''sleep'' 8) (Some ''u1'')
           (found (sample_wearable ''sleep'' 8))
           (sample_metrics_env (found (sample_metrics (Some 86400001))) (Some ''update failed''))
           [sample_metrics (Some 86400001)])
       = Json \<lparr>ws_data = Some (sample_wearable ''sleep'' 8),
               ws_message = ''Wearable data saved successfully''\<rparr>"
proof -
  have v: "wearableDataSchema (sample_wearable ''sleep'' 8)"
    by (simp add: wearableDataSchema_def sample_wearable_def)
  have u: "Some ''u1'' = Some (wd_userId (sample_wearable ''sleep'' 8))"
    by (simp add: sample_wearable_def)
  have i: "resp_error (found (sample_wearable ''sleep'' 8)) = None"
      "resp_data (found (sample_wearable ''sleep'' 8)) = Some (sample_wearable ''sleep'' 8)"
    by (simp_all add: found_def)
  have t: "fst (updateHealthMetrics_try (sample_metrics_env (found (sample_metrics None)) None)
           ''u1'' ''sleep'' 8 []) = Inl (RangeError ''Invalid time value'')"
    by (simp add: updateHealthMetrics_try_def sample_metrics_env_def found_def updateData_def
        sample_metrics_def)
  show ?thesis
    using v t i(2) metrics_update_invisible [OF v u i(1)] by simp
qed

section \<open>Trend analysis: the ranking of the risk indicators\<close>

subsection \<open>Counting\<close>













subsection \<open>The order of the entries\<close>





subsection \<open>The sort\<close>



subsection \<open>The ranking\<close>












end
